theory Spec2Isabelle
  imports Complex_Main
begin

section \<open>The crop editor of videooo-cut (src/main.py)\<close>

text \<open>
  The development follows \<^verbatim>\<open>VideoPreviewWidget\<close> and the crop handlers of
  \<^verbatim>\<open>MainWindow\<close> in \<^verbatim>\<open>src/main.py\<close>. Conventions of the embedding:
  \<^item> Python integers are \<^typ>\<open>int\<close>. Qt stores coordinates in C \<^verbatim>\<open>int\<close>; the
    coordinates of a screen and of a video frame are far from its limits, and the
    wrap-around is not modelled.
  \<^item> Python floats (the scale factors, the offsets, the target ratio) are exact real numbers
    (\<^typ>\<open>real\<close>): the rounding of IEEE doubles is not modelled. \<^verbatim>\<open>int(x)\<close> truncates
    towards zero.
  \<^item> What the code takes from PyQt6 is written out from Qt's documentation: a
    \<^verbatim>\<open>QRect\<close> stores its two corners, \<^verbatim>\<open>right() = x() + width() - 1\<close>, a
    \<^verbatim>\<open>QPoint\<close> is false in a condition exactly when it is \<^verbatim>\<open>(0, 0)\<close>
    (\<^verbatim>\<open>isNull()\<close>) and a \<^verbatim>\<open>QRect\<close> exactly when it is not valid.
  \<^item> An exception raised by a handler is the value \<open>Inl e\<close>.
  \<^item> Painting, cursors and \<^verbatim>\<open>update()\<close> requests change no field and are left out.
\<close>

subsection \<open>Python and Qt values\<close>

datatype error = ZeroDivisionError | AttributeError

definition py_int :: "real \<Rightarrow> int" where
  \<comment> \<open>\<^verbatim>\<open>int(x)\<close> on a float: truncation towards zero\<close>
  "py_int q = (if 0 \<le> q then \<lfloor>q\<rfloor> else \<lceil>q\<rceil>)"

definition py_truediv :: "real \<Rightarrow> real \<Rightarrow> error + real" where
  \<comment> \<open>\<^verbatim>\<open>a / b\<close>\<close>
  "py_truediv a b = (if b = 0 then Inl ZeroDivisionError else Inr (a / b))"

type_synonym qpoint = "int \<times> int"

definition point_bool :: "qpoint option \<Rightarrow> bool" where
  \<comment> \<open>truth value of \<^verbatim>\<open>None\<close> or of a \<^verbatim>\<open>QPoint\<close>\<close>
  "point_bool p = (case p of None \<Rightarrow> False | Some q \<Rightarrow> q \<noteq> (0, 0))"

datatype qrect = Corners (qx1: int) (qy1: int) (qx2: int) (qy2: int)
  \<comment> \<open>as Qt stores it: left, top, right and bottom, all inclusive\<close>

definition QRect :: "int \<Rightarrow> int \<Rightarrow> int \<Rightarrow> int \<Rightarrow> qrect" where
  \<comment> \<open>\<^verbatim>\<open>QRect(x, y, width, height)\<close>\<close>
  "QRect x y w h = Corners x y (x + w - 1) (y + h - 1)"

definition QRect_points :: "qpoint \<Rightarrow> qpoint \<Rightarrow> qrect" where
  \<comment> \<open>\<^verbatim>\<open>QRect(topLeft, bottomRight)\<close>\<close>
  "QRect_points p1 p2 = Corners (fst p1) (snd p1) (fst p2) (snd p2)"

fun setLeft :: "qrect \<Rightarrow> int \<Rightarrow> qrect" where
  "setLeft (Corners a b c d) v = Corners v b c d"

fun setTop :: "qrect \<Rightarrow> int \<Rightarrow> qrect" where
  "setTop (Corners a b c d) v = Corners a v c d"

fun setRight :: "qrect \<Rightarrow> int \<Rightarrow> qrect" where
  "setRight (Corners a b c d) v = Corners a b v d"

fun setBottom :: "qrect \<Rightarrow> int \<Rightarrow> qrect" where
  "setBottom (Corners a b c d) v = Corners a b c v"

fun rect_width :: "qrect \<Rightarrow> int" where
  "rect_width (Corners a b c d) = c - a + 1"

fun rect_height :: "qrect \<Rightarrow> int" where
  "rect_height (Corners a b c d) = d - b + 1"

fun topLeft :: "qrect \<Rightarrow> qpoint" where
  "topLeft (Corners a b c d) = (a, b)"

fun bottomRight :: "qrect \<Rightarrow> qpoint" where
  "bottomRight (Corners a b c d) = (c, d)"

fun isValid :: "qrect \<Rightarrow> bool" where
  "isValid (Corners a b c d) = (a \<le> c \<and> b \<le> d)"

definition rect_bool :: "qrect option \<Rightarrow> bool" where
  \<comment> \<open>truth value of \<^verbatim>\<open>None\<close> or of a \<^verbatim>\<open>QRect\<close>\<close>
  "rect_bool r = (case r of None \<Rightarrow> False | Some q \<Rightarrow> isValid q)"

fun contains :: "qrect \<Rightarrow> qpoint \<Rightarrow> bool" where
  \<comment> \<open>\<^verbatim>\<open>QRect.contains(point)\<close>, edges included; Qt normalises a rectangle whose corners are swapped\<close>
  "contains (Corners x1 y1 x2 y2) (px, py) =
     (let l = (if x2 < x1 - 1 then x2 else x1);
          r = (if x2 < x1 - 1 then x1 else x2);
          t = (if y2 < y1 - 1 then y2 else y1);
          b = (if y2 < y1 - 1 then y1 else y2)
      in l \<le> px \<and> px \<le> r \<and> t \<le> py \<and> py \<le> b)"

definition c_div2 :: "int \<Rightarrow> int" where
  \<comment> \<open>C's \<^verbatim>\<open>n / 2\<close>, rounding towards zero\<close>
  "c_div2 n = (if 0 \<le> n then n div 2 else - ((- n) div 2))"

fun center :: "qrect \<Rightarrow> qpoint" where
  "center (Corners x1 y1 x2 y2) = (c_div2 (x1 + x2), c_div2 (y1 + y2))"

fun moveCenter :: "qrect \<Rightarrow> qpoint \<Rightarrow> qrect" where
  "moveCenter (Corners x1 y1 x2 y2) (px, py) =
     (let w = x2 - x1; h = y2 - y1;
          nx = px - c_div2 w; ny = py - c_div2 h
      in Corners nx ny (nx + w) (ny + h))"

definition scaled_keep_aspect :: "int \<times> int \<Rightarrow> int \<times> int \<Rightarrow> int \<times> int" where
  \<comment> \<open>the size of \<^verbatim>\<open>pixmap.scaled(size, KeepAspectRatio, ...)\<close> for a pixmap of size
      \<open>(wd, ht)\<close> and a target \<open>(sw, sh)\<close>: Qt's \<^verbatim>\<open>QSize::scaled\<close>, each side at least 1\<close>
  "scaled_keep_aspect src tgt =
     (let wd = fst src; ht = snd src; sw = fst tgt; sh = snd tgt;
          rw = (sh * wd) div ht;
          res = (if rw \<le> sw then (rw, sh) else (sw, (sw * ht) div wd))
      in (max (fst res) 1, max (snd res) 1))"

datatype handle =
  move | resize_tl | resize_tr | resize_bl | resize_br
  | resize_t | resize_b | resize_l | resize_r

datatype mouse_button = LeftButton | RightButton | MiddleButton

subsection \<open>The state: the preview widget and the crop fields of the main window\<close>

record app =
  current_frame :: "(int \<times> int) option"  \<comment> \<open>\<^verbatim>\<open>shape[:2]\<close> of the frame: (height, width)\<close>
  widget_size :: "int \<times> int"  \<comment> \<open>\<^verbatim>\<open>self.size()\<close>: (width, height)\<close>
  base_pixmap :: "(int \<times> int) option"  \<comment> \<open>the size of the cached pixmap: (width, height)\<close>
  crop_rect :: "qrect option"
  crop_rect_widget :: "qrect option"
  shadow_crop_rects :: "qrect list"
  shadow_crop_rects_widget :: "qrect list"
  drawing :: bool
  adjusting :: bool
  adjust_mode :: "handle option"
  start_point :: "qpoint option"
  end_point :: "qpoint option"
  start_point_widget :: "qpoint option"
  end_point_widget :: "qpoint option"
  original_crop_rect :: "qrect option"
  original_crop_rect_widget :: "qrect option"
  frame_to_widget_scale_x :: real
  frame_to_widget_scale_y :: real
  widget_offset_x :: real
  widget_offset_y :: real
  handle_size :: int
  lock_aspect_ratio :: bool
  aspect_ratio :: "(int \<times> int) option"
  lock_size :: bool
  locked_size :: "(int \<times> int) option"
  shadow_count :: int
  mw_crop_rect :: "qrect option"  \<comment> \<open>\<^verbatim>\<open>MainWindow.crop_rect\<close>\<close>
  mw_shadow_count :: int  \<comment> \<open>\<^verbatim>\<open>MainWindow.shadow_count\<close>\<close>
  crop_aspect_ratio :: "(int \<times> int) option"
  aspect_ratio_combo :: string  \<comment> \<open>the current text of the combo box\<close>
  lock_aspect_checkbox :: bool  \<comment> \<open>whether the check box is checked\<close>
  custom_width_spin :: int
  custom_height_spin :: int

definition init :: app where
  \<comment> \<open>the fields after both constructors; the widget's minimum size is taken as its size,
      and the combo box shows its first item, written \<^verbatim>\<open>Free\<close> here\<close>
  "init = \<lparr>current_frame = None, widget_size = (640, 360), base_pixmap = None,
     crop_rect = None, crop_rect_widget = None,
     shadow_crop_rects = [], shadow_crop_rects_widget = [],
     drawing = False, adjusting = False, adjust_mode = None,
     start_point = None, end_point = None,
     start_point_widget = None, end_point_widget = None,
     original_crop_rect = None, original_crop_rect_widget = None,
     frame_to_widget_scale_x = 1, frame_to_widget_scale_y = 1,
     widget_offset_x = 0, widget_offset_y = 0,
     handle_size = 10,
     lock_aspect_ratio = False, aspect_ratio = None,
     lock_size = False, locked_size = None,
     shadow_count = 1,
     mw_crop_rect = None, mw_shadow_count = 1, crop_aspect_ratio = None,
     aspect_ratio_combo = ''Free'', lock_aspect_checkbox = False,
     custom_width_spin = 16, custom_height_spin = 9\<rparr>"

subsection \<open>The coordinate transform\<close>

definition widget_rect :: "app \<Rightarrow> qrect" where
  \<comment> \<open>\<^verbatim>\<open>self.rect()\<close>\<close>
  "widget_rect s = QRect 0 0 (fst (widget_size s)) (snd (widget_size s))"

definition update_base_pixmap :: "app \<Rightarrow> error + app" where
  "update_base_pixmap s =
     (case current_frame s of
        None \<Rightarrow> Inr s
      | Some (height, width) \<Rightarrow>
          let pm = scaled_keep_aspect (width, height) (widget_size s);
              s1 = s\<lparr>base_pixmap := Some pm\<rparr>
          in if width = 0 \<or> height = 0 then Inl ZeroDivisionError
             else Inr (s1\<lparr>frame_to_widget_scale_x := of_int (fst pm) / of_int width,
                           frame_to_widget_scale_y := of_int (snd pm) / of_int height,
                           widget_offset_x := of_int (fst (widget_size s) - fst pm) / 2,
                           widget_offset_y := of_int (snd (widget_size s) - snd pm) / 2\<rparr>))"

definition set_frame :: "app \<Rightarrow> (int \<times> int) option \<Rightarrow> error + app" where
  "set_frame s frame =
     (case frame of None \<Rightarrow> Inr s
      | Some f \<Rightarrow> update_base_pixmap (s\<lparr>current_frame := Some f\<rparr>))"

fun widget_to_frame_coords :: "app \<Rightarrow> qpoint \<Rightarrow> error + qpoint option" where
  "widget_to_frame_coords s (wx, wy) =
     (case current_frame s of
        None \<Rightarrow> Inr None
      | Some (frame_height, frame_width) \<Rightarrow>
          (case py_truediv (of_int wx - widget_offset_x s) (frame_to_widget_scale_x s) of
             Inl e \<Rightarrow> Inl e
           | Inr x \<Rightarrow>
             (case py_truediv (of_int wy - widget_offset_y s) (frame_to_widget_scale_y s) of
                Inl e \<Rightarrow> Inl e
              | Inr y \<Rightarrow>
                  Inr (Some (max 0 (min (py_int x) frame_width),
                             max 0 (min (py_int y) frame_height))))))"

fun frame_to_widget_coords :: "app \<Rightarrow> qpoint \<Rightarrow> qpoint" where
  "frame_to_widget_coords s (fx, fy) =
     (let x = of_int fx * frame_to_widget_scale_x s + widget_offset_x s;
          y = of_int fy * frame_to_widget_scale_y s + widget_offset_y s
      in (py_int x, py_int y))"

subsection \<open>Handles\<close>

definition get_crop_handle_at :: "app \<Rightarrow> qpoint \<Rightarrow> handle option" where
  "get_crop_handle_at s point =
     (if \<not> rect_bool (crop_rect_widget s) then None
      else case crop_rect_widget s of
        None \<Rightarrow> None
      | Some rect \<Rightarrow>
          let hs = handle_size s; px = fst point; py = snd point in
          if \<bar>px - qx1 rect\<bar> \<le> hs \<and> \<bar>py - qy1 rect\<bar> \<le> hs then Some resize_tl
          else if \<bar>px - qx2 rect\<bar> \<le> hs \<and> \<bar>py - qy1 rect\<bar> \<le> hs then Some resize_tr
          else if \<bar>px - qx1 rect\<bar> \<le> hs \<and> \<bar>py - qy2 rect\<bar> \<le> hs then Some resize_bl
          else if \<bar>px - qx2 rect\<bar> \<le> hs \<and> \<bar>py - qy2 rect\<bar> \<le> hs then Some resize_br
          else if \<bar>py - qy1 rect\<bar> \<le> hs \<and> qx1 rect \<le> px \<and> px \<le> qx2 rect then Some resize_t
          else if \<bar>py - qy2 rect\<bar> \<le> hs \<and> qx1 rect \<le> px \<and> px \<le> qx2 rect then Some resize_b
          else if \<bar>px - qx1 rect\<bar> \<le> hs \<and> qy1 rect \<le> py \<and> py \<le> qy2 rect then Some resize_l
          else if \<bar>px - qx2 rect\<bar> \<le> hs \<and> qy1 rect \<le> py \<and> py \<le> qy2 rect then Some resize_r
          else if contains rect point then Some move
          else None)"

subsection \<open>Shadow crops\<close>

fun shadow_loop :: "app \<Rightarrow> qrect \<Rightarrow> int \<Rightarrow> int list \<Rightarrow> qrect list \<times> qrect list \<Rightarrow> qrect list \<times> qrect list" where
  \<comment> \<open>the body of \<^verbatim>\<open>for i in range(1, num_segments)\<close>, on the two lists being built\<close>
  "shadow_loop s cr frame_width [] acc = acc"
| "shadow_loop s cr frame_width (i # rest) acc =
     (let crop_width = rect_width cr; crop_height = rect_height cr;
          crop_x = qx1 cr; crop_y = qy1 cr;
          shadow_x = crop_x + (crop_width * i)
      in if shadow_x + crop_width \<le> frame_width then
           let shadow_rect = QRect shadow_x crop_y crop_width crop_height;
               top_left_widget = frame_to_widget_coords s (topLeft shadow_rect);
               bottom_right_widget = frame_to_widget_coords s (bottomRight shadow_rect)
           in shadow_loop s cr frame_width rest
                (fst acc @ [shadow_rect],
                 if point_bool (Some top_left_widget) \<and> point_bool (Some bottom_right_widget)
                 then snd acc @ [QRect_points top_left_widget bottom_right_widget]
                 else snd acc)
         else shadow_loop s cr frame_width rest acc)"

definition update_shadow_crops :: "app \<Rightarrow> int \<Rightarrow> error + app" where
  "update_shadow_crops s num_segments =
     (if \<not> rect_bool (crop_rect s) \<or> num_segments \<le> 1
      then Inr (s\<lparr>shadow_crop_rects := [], shadow_crop_rects_widget := []\<rparr>)
      else case crop_rect s of
        None \<Rightarrow> Inr (s\<lparr>shadow_crop_rects := [], shadow_crop_rects_widget := []\<rparr>)
      | Some cr \<Rightarrow>
          (case current_frame s of
             None \<Rightarrow> Inl AttributeError
           | Some (frame_height, frame_width) \<Rightarrow>
               let res = shadow_loop s cr frame_width [1..num_segments - 1] ([], [])
               in Inr (s\<lparr>shadow_crop_rects := fst res, shadow_crop_rects_widget := snd res\<rparr>)))"

subsection \<open>Constraints\<close>

definition and_then :: "error + 'a \<Rightarrow> ('a \<Rightarrow> error + 'b) \<Rightarrow> error + 'b" where
  \<comment> \<open>sequencing: an exception ends the handler\<close>
  "and_then m f = (case m of Inl e \<Rightarrow> Inl e | Inr v \<Rightarrow> f v)"

definition apply_aspect_ratio_constraint ::
  "int \<Rightarrow> int \<Rightarrow> int \<Rightarrow> int \<Rightarrow> (int \<times> int) option \<Rightarrow> error + (int \<times> int \<times> int \<times> int)" where
  "apply_aspect_ratio_constraint x1 y1 x2 y2 ratio =
     (case ratio of
        None \<Rightarrow> Inr (x1, y1, x2, y2)
      | Some (a0, a1) \<Rightarrow>
          let width = x2 - x1; height = y2 - y1 in
          and_then (py_truediv (of_int a0) (of_int a1)) (\<lambda>target_ratio.
            let current_ratio = (if height > 0 then of_int width / of_int height else 0) in
            if current_ratio > target_ratio then
              and_then (py_truediv (of_int width) target_ratio) (\<lambda>q.
                let new_height = py_int q in Inr (x1, y1, x2, y1 + new_height))
            else
              let new_width = py_int (of_int height * target_ratio)
              in Inr (x1, y1, x1 + new_width, y2)))"

definition apply_size_constraint ::
  "int \<Rightarrow> int \<Rightarrow> int \<Rightarrow> int \<Rightarrow> (int \<times> int) option \<Rightarrow> int \<times> int \<times> int \<times> int" where
  "apply_size_constraint x1 y1 x2 y2 size_opt =
     (case size_opt of
        None \<Rightarrow> (x1, y1, x2, y2)
      | Some (target_width, target_height) \<Rightarrow> (x1, y1, x1 + target_width, y1 + target_height))"

fun apply_constraints :: "app \<Rightarrow> int \<times> int \<times> int \<times> int \<Rightarrow> error + (int \<times> int \<times> int \<times> int)" where
  \<comment> \<open>the \<^verbatim>\<open>if self.lock_size ... elif self.lock_aspect_ratio ...\<close> of both update functions\<close>
  "apply_constraints s (x1, y1, x2, y2) =
       (if lock_size s \<and> locked_size s \<noteq> None
        then Inr (apply_size_constraint x1 y1 x2 y2 (locked_size s))
        else if lock_aspect_ratio s \<and> aspect_ratio s \<noteq> None
        then apply_aspect_ratio_constraint x1 y1 x2 y2 (aspect_ratio s)
        else Inr (x1, y1, x2, y2))"

subsection \<open>Drawing a crop rectangle\<close>

definition pixmap_rect :: "app \<Rightarrow> qrect" where
  \<comment> \<open>\<^verbatim>\<open>self.base_pixmap.rect()\<close> (or \<^verbatim>\<open>QRect()\<close>) moved to the centre of the widget\<close>
  "pixmap_rect s =
     moveCenter (case base_pixmap s of None \<Rightarrow> QRect 0 0 0 0 | Some (w, h) \<Rightarrow> QRect 0 0 w h)
                (center (widget_rect s))"

definition on_crop_changed :: "app \<Rightarrow> qrect option \<Rightarrow> error + app" where
  \<comment> \<open>the slot of \<^verbatim>\<open>MainWindow\<close> connected to \<^verbatim>\<open>crop_changed\<close>\<close>
  "on_crop_changed s rect = update_shadow_crops (s\<lparr>mw_crop_rect := rect\<rparr>) (mw_shadow_count s)"

definition update_crop_rect :: "app \<Rightarrow> error + app" where
  "update_crop_rect s =
     (if point_bool (start_point s) \<and> point_bool (end_point s) \<and> current_frame s \<noteq> None then
        case (start_point s, end_point s, current_frame s) of
          (Some sp, Some ep, Some (frame_height, frame_width)) \<Rightarrow>
            and_then (apply_constraints s (min (fst sp) (fst ep), min (snd sp) (snd ep),
                                           max (fst sp) (fst ep), max (snd sp) (snd ep)))
              (\<lambda>(cx1, cy1, cx2, cy2).
                 let x1 = max 0 (min cx1 (frame_width - 1));
                     y1 = max 0 (min cy1 (frame_height - 1));
                     x2 = max 0 (min cx2 frame_width);
                     y2 = max 0 (min cy2 frame_height);
                     x2 = (if x2 \<le> x1 then min (x1 + 1) frame_width else x2);
                     y2 = (if y2 \<le> y1 then min (y1 + 1) frame_height else y2);
                     s1 = s\<lparr>crop_rect := Some (QRect x1 y1 (x2 - x1) (y2 - y1))\<rparr>;
                     s2 = (if point_bool (start_point_widget s1) \<and> point_bool (end_point_widget s1) then
                             case (start_point_widget s1, end_point_widget s1) of
                               (Some spw, Some epw) \<Rightarrow>
                                 let pr = pixmap_rect s1;
                                     x1_w = max (qx1 pr) (min (min (fst spw) (fst epw)) (qx2 pr));
                                     y1_w = max (qy1 pr) (min (min (snd spw) (snd epw)) (qy2 pr));
                                     x2_w = max (qx1 pr) (min (max (fst spw) (fst epw)) (qx2 pr));
                                     y2_w = max (qy1 pr) (min (max (snd spw) (snd epw)) (qy2 pr));
                                     x2_w = (if x2_w \<le> x1_w then min (x1_w + 1) (qx2 pr) else x2_w);
                                     y2_w = (if y2_w \<le> y1_w then min (y1_w + 1) (qy2 pr) else y2_w)
                                 in s1\<lparr>crop_rect_widget := Some (QRect x1_w y1_w (x2_w - x1_w) (y2_w - y1_w))\<rparr>
                             | _ \<Rightarrow> s1
                           else s1)
                 in and_then (on_crop_changed s2 (crop_rect s2))
                      (\<lambda>s3. update_shadow_crops s3 (shadow_count s3)))
        | _ \<Rightarrow> Inr s
      else Inr s)"

definition clear_crop :: "app \<Rightarrow> app" where
  \<comment> \<open>\<^verbatim>\<open>VideoPreviewWidget.clear_crop\<close>\<close>
  "clear_crop s = s\<lparr>crop_rect := None, crop_rect_widget := None,
     shadow_crop_rects := [], shadow_crop_rects_widget := [],
     start_point := None, end_point := None,
     start_point_widget := None, end_point_widget := None\<rparr>"

definition set_shadow_count :: "app \<Rightarrow> int \<Rightarrow> error + app" where
  "set_shadow_count s count =
     (let s1 = s\<lparr>shadow_count := count\<rparr>
      in if rect_bool (crop_rect s1) then update_shadow_crops s1 count else Inr s1)"

fun clamp_to_pixmap :: "app \<Rightarrow> qpoint \<Rightarrow> qpoint" where
  \<comment> \<open>\<^verbatim>\<open>if self.base_pixmap:\<close> clamp both coordinates of the mouse position\<close>
  "clamp_to_pixmap s (px, py) =
     (if base_pixmap s \<noteq> None then
        let pr = pixmap_rect s
        in (max (qx1 pr) (min px (qx2 pr)), max (qy1 pr) (min py (qy2 pr)))
      else (px, py))"

definition mousePressEvent :: "app \<Rightarrow> mouse_button \<Rightarrow> qpoint \<Rightarrow> error + app" where
  "mousePressEvent s button mouse_pos =
     (if current_frame s = None then Inr s
      else if button = LeftButton then
        let hdl = (if rect_bool (crop_rect_widget s) then get_crop_handle_at s mouse_pos else None) in
        if hdl \<noteq> None then
          Inr (s\<lparr>adjusting := True, adjust_mode := hdl,
                 original_crop_rect := (if rect_bool (crop_rect s) then crop_rect s else None),
                 original_crop_rect_widget :=
                   (if rect_bool (crop_rect_widget s) then crop_rect_widget s else None),
                 start_point_widget := Some mouse_pos, end_point_widget := Some mouse_pos\<rparr>)
        else
          let s1 = s\<lparr>drawing := True, adjusting := False, adjust_mode := None\<rparr> in
          and_then (widget_to_frame_coords s1 mouse_pos) (\<lambda>frame_point.
            if point_bool frame_point then
              update_crop_rect (s1\<lparr>start_point := frame_point, end_point := frame_point,
                                   start_point_widget := Some mouse_pos,
                                   end_point_widget := Some mouse_pos\<rparr>)
            else Inr s1)
      else Inr s)"

subsection \<open>Adjusting an existing crop rectangle\<close>

definition aspect_deltas ::
  "app \<Rightarrow> qrect \<Rightarrow> int \<Rightarrow> int \<Rightarrow> error + (int \<times> int)" where
  \<comment> \<open>lines 402--437 of \<^verbatim>\<open>adjust_crop_rect\<close>: with a locked ratio, one delta follows the other\<close>
  "aspect_deltas s orig delta_x delta_y =
     (if lock_aspect_ratio s \<and> aspect_ratio s \<noteq> None \<and> adjust_mode s \<noteq> Some move then
        case aspect_ratio s of
          None \<Rightarrow> Inr (delta_x, delta_y)
        | Some (a0, a1) \<Rightarrow>
            and_then (py_truediv (of_int a0) (of_int a1)) (\<lambda>target_ratio.
              if adjust_mode s \<in> {Some resize_tl, Some resize_tr, Some resize_bl, Some resize_br} then
                if \<bar>delta_x\<bar> > \<bar>delta_y\<bar> then
                  let new_width = (if adjust_mode s \<in> {Some resize_tr, Some resize_br}
                                   then rect_width orig + delta_x else rect_width orig - delta_x) in
                  and_then (py_truediv (of_int new_width) target_ratio) (\<lambda>q.
                    let new_height = py_int q in
                    Inr (delta_x,
                         if adjust_mode s \<in> {Some resize_tl, Some resize_tr}
                         then rect_height orig - new_height else new_height - rect_height orig))
                else
                  let new_height = (if adjust_mode s \<in> {Some resize_tl, Some resize_tr}
                                    then rect_height orig - delta_y else rect_height orig + delta_y);
                      new_width = py_int (of_int new_height * target_ratio)
                  in Inr (if adjust_mode s \<in> {Some resize_tl, Some resize_bl}
                          then rect_width orig - new_width else new_width - rect_width orig,
                          delta_y)
              else if adjust_mode s \<in> {Some resize_t, Some resize_b} then
                let new_height = (if adjust_mode s = Some resize_t
                                  then rect_height orig - delta_y else rect_height orig + delta_y);
                    new_width = py_int (of_int new_height * target_ratio)
                in Inr (new_width - rect_width orig, delta_y)
              else if adjust_mode s \<in> {Some resize_l, Some resize_r} then
                let new_width = (if adjust_mode s = Some resize_l
                                 then rect_width orig - delta_x else rect_width orig + delta_x) in
                and_then (py_truediv (of_int new_width) target_ratio) (\<lambda>q.
                  let new_height = py_int q in Inr (delta_x, new_height - rect_height orig))
              else Inr (delta_x, delta_y))
      else Inr (delta_x, delta_y))"

fun new_widget_rect :: "app \<Rightarrow> qrect \<Rightarrow> int \<Rightarrow> int \<Rightarrow> qrect option" where
  \<comment> \<open>lines 439--517: the rectangle of each mode; \<open>None\<close> is the final \<^verbatim>\<open>else: return\<close>\<close>
  "new_widget_rect s (Corners a b c d) delta_x delta_y =
     (let orig = Corners a b c d;
          ox = qx1 orig; oy = qy1 orig; ow = rect_width orig; oh = rect_height orig in
      case adjust_mode s of
        None \<Rightarrow> None
      | Some move \<Rightarrow>
          let new_x = ox + delta_x; new_y = oy + delta_y;
              pr = pixmap_rect s;
              new_x = (if base_pixmap s \<noteq> None then max (qx1 pr) (min new_x (qx2 pr - ow)) else new_x);
              new_y = (if base_pixmap s \<noteq> None then max (qy1 pr) (min new_y (qy2 pr - oh)) else new_y)
          in Some (QRect new_x new_y ow oh)
      | Some resize_tl \<Rightarrow> Some (QRect (ox + delta_x) (oy + delta_y) (ow - delta_x) (oh - delta_y))
      | Some resize_tr \<Rightarrow> Some (QRect ox (oy + delta_y) (ow + delta_x) (oh - delta_y))
      | Some resize_bl \<Rightarrow> Some (QRect (ox + delta_x) oy (ow - delta_x) (oh + delta_y))
      | Some resize_br \<Rightarrow> Some (QRect ox oy (ow + delta_x) (oh + delta_y))
      | Some resize_t \<Rightarrow> Some (QRect ox (oy + delta_y) ow (oh - delta_y))
      | Some resize_b \<Rightarrow> Some (QRect ox oy ow (oh + delta_y))
      | Some resize_l \<Rightarrow> Some (QRect (ox + delta_x) oy (ow - delta_x) oh)
      | Some resize_r \<Rightarrow> Some (QRect ox oy (ow + delta_x) oh))"

fun constrain_widget_rect :: "app \<Rightarrow> qrect \<Rightarrow> qrect \<Rightarrow> qrect" where
  \<comment> \<open>lines 519--561: a resized rectangle is held at the edges of the pixmap\<close>
  "constrain_widget_rect s orig (Corners a b c d) =
     (let r0 = Corners a b c d in
      if base_pixmap s \<noteq> None \<and> adjust_mode s \<noteq> Some move then
        let pr = pixmap_rect s; m = adjust_mode s;
            r1 = (if qx1 r0 < qx1 pr then
                    if m \<in> {Some resize_tl, Some resize_bl, Some resize_l}
                    then setLeft r0 (qx1 pr)
                    else setRight (setLeft r0 (qx1 pr)) (qx1 pr + rect_width orig)
                  else r0);
            r2 = (if qy1 r1 < qy1 pr then
                    if m \<in> {Some resize_tl, Some resize_tr, Some resize_t}
                    then setTop r1 (qy1 pr)
                    else setBottom (setTop r1 (qy1 pr)) (qy1 pr + rect_height orig)
                  else r1);
            r3 = (if qx2 r2 > qx2 pr then
                    if m \<in> {Some resize_tr, Some resize_br, Some resize_r}
                    then setRight r2 (qx2 pr)
                    else setLeft (setRight r2 (qx2 pr)) (qx2 pr - rect_width orig)
                  else r2);
            r4 = (if qy2 r3 > qy2 pr then
                    if m \<in> {Some resize_bl, Some resize_br, Some resize_b}
                    then setBottom r3 (qy2 pr)
                    else setTop (setBottom r3 (qy2 pr)) (qy2 pr - rect_height orig)
                  else r3)
        in r4
      else r0)"

fun min_size_widget_rect :: "app \<Rightarrow> qrect \<Rightarrow> qrect" where
  \<comment> \<open>lines 563--573: at least 10 pixels on the widget\<close>
  "min_size_widget_rect s (Corners a b c d) =
     (let r0 = Corners a b c d; m = adjust_mode s;
          r1 = (if rect_width r0 < 10 then
                  if m \<in> {Some resize_tl, Some resize_bl, Some resize_l}
                  then setLeft r0 (qx2 r0 - 10) else setRight r0 (qx1 r0 + 10)
                else r0);
          r2 = (if rect_height r1 < 10 then
                  if m \<in> {Some resize_tl, Some resize_tr, Some resize_t}
                  then setTop r1 (qy2 r1 - 10) else setBottom r1 (qy1 r1 + 10)
                else r1)
      in r2)"

fun validate_corners :: "int \<Rightarrow> int \<Rightarrow> int \<times> int \<times> int \<times> int \<Rightarrow> int \<times> int \<times> int \<times> int" where
  \<comment> \<open>lines 608--628: the minimum size and the final validation\<close>
  "validate_corners frame_width frame_height (cx1, cy1, cx2, cy2) =
     (let x1 = cx1; y1 = cy1;
          x2 = (if cx2 \<le> x1 then min (x1 + 1) frame_width else cx2);
          y2 = (if cy2 \<le> y1 then min (y1 + 1) frame_height else cy2)
      in if x1 < 0 \<or> y1 < 0 \<or> x2 > frame_width \<or> y2 > frame_height then
           let x2 = (if x1 < 0 then x2 - x1 else x2);
               x1 = (if x1 < 0 then 0 else x1);
               y2 = (if y1 < 0 then y2 - y1 else y2);
               y1 = (if y1 < 0 then 0 else y1);
               x1 = (if x2 > frame_width then max 0 (x1 - (x2 - frame_width)) else x1);
               x2 = (if x2 > frame_width then frame_width else x2);
               y1 = (if y2 > frame_height then max 0 (y1 - (y2 - frame_height)) else y1);
               y2 = (if y2 > frame_height then frame_height else y2)
           in (x1, y1, x2, y2)
         else (x1, y1, x2, y2))"

fun frame_clamp ::
  "app \<Rightarrow> int \<Rightarrow> int \<Rightarrow> qpoint \<Rightarrow> qpoint \<Rightarrow> int \<times> int \<times> int \<times> int" where
  \<comment> \<open>lines 582--628: the corners in frame coordinates, before the constraints\<close>
  "frame_clamp s frame_width frame_height (tlx, tly) (brx, bry) =
     (let top_left_frame = (tlx, tly); bottom_right_frame = (brx, bry);
          orig_width = (if rect_bool (original_crop_rect s)
                        then (case original_crop_rect s of Some r \<Rightarrow> rect_width r | None \<Rightarrow> 0)
                        else fst bottom_right_frame - fst top_left_frame);
          orig_height = (if rect_bool (original_crop_rect s)
                         then (case original_crop_rect s of Some r \<Rightarrow> rect_height r | None \<Rightarrow> 0)
                         else snd bottom_right_frame - snd top_left_frame)
      in validate_corners frame_width frame_height
           (if adjust_mode s = Some move then
              let x1 = max 0 (min (fst top_left_frame) (frame_width - orig_width));
                  y1 = max 0 (min (snd top_left_frame) (frame_height - orig_height));
                  x2 = x1 + orig_width;
                  y2 = y1 + orig_height;
                  x1 = (if x2 > frame_width then frame_width - orig_width else x1);
                  x2 = (if x2 > frame_width then frame_width else x2);
                  y1 = (if y2 > frame_height then frame_height - orig_height else y1);
                  y2 = (if y2 > frame_height then frame_height else y2)
              in (x1, y1, x2, y2)
            else
              let x1 = max 0 (min (fst top_left_frame) (frame_width - 1));
                  y1 = max 0 (min (snd top_left_frame) (frame_height - 1));
                  x2 = max (x1 + 1) (min (fst bottom_right_frame) frame_width);
                  y2 = max (y1 + 1) (min (snd bottom_right_frame) frame_height)
              in (x1, y1, x2, y2)))"

fun frame_reclamp :: "app \<Rightarrow> int \<Rightarrow> int \<Rightarrow> int \<times> int \<times> int \<times> int \<Rightarrow> qrect" where
  \<comment> \<open>lines 636--651: the clamp after the constraints, and the committed rectangle\<close>
  "frame_reclamp s frame_width frame_height (cx1, cy1, cx2, cy2) =
     (let x1 = cx1; y1 = cy1; x2 = cx2; y2 = cy2 in
        if adjust_mode s = Some move \<and> (lock_size s \<or> lock_aspect_ratio s) then
          let final_width = x2 - x1; final_height = y2 - y1;
              x1 = max 0 (min x1 (frame_width - final_width));
              y1 = max 0 (min y1 (frame_height - final_height));
              x2 = x1 + final_width;
              y2 = y1 + final_height
          in QRect x1 y1 (x2 - x1) (y2 - y1)
        else
          let x1 = max 0 (min x1 (frame_width - 1));
              y1 = max 0 (min y1 (frame_height - 1));
              x2 = max 0 (min x2 frame_width);
              y2 = max 0 (min y2 frame_height)
          in QRect x1 y1 (x2 - x1) (y2 - y1))"

definition commit_adjusted :: "app \<Rightarrow> int \<Rightarrow> int \<Rightarrow> qpoint \<Rightarrow> qpoint \<Rightarrow> error + app" where
  \<comment> \<open>lines 582--659 of \<^verbatim>\<open>adjust_crop_rect\<close>: the body of
      \<^verbatim>\<open>if top_left_frame and bottom_right_frame:\<close>\<close>
  "commit_adjusted s1 frame_width frame_height top_left_frame bottom_right_frame =
     and_then (apply_constraints s1 (frame_clamp s1 frame_width frame_height top_left_frame bottom_right_frame))
       (\<lambda>c. let cr = frame_reclamp s1 frame_width frame_height c;
                 s2 = s1\<lparr>crop_rect := Some cr\<rparr>;
                 top_left_widget = frame_to_widget_coords s2 (topLeft cr);
                 bottom_right_widget = frame_to_widget_coords s2 (bottomRight cr);
                 s3 = (if point_bool (Some top_left_widget) \<and> point_bool (Some bottom_right_widget)
                       then s2\<lparr>crop_rect_widget := Some (QRect_points top_left_widget bottom_right_widget)\<rparr>
                       else s2)
             in on_crop_changed s3 (crop_rect s3))"

definition adjust_crop_rect :: "app \<Rightarrow> qpoint \<Rightarrow> error + app" where
  "adjust_crop_rect s mouse_pos_widget =
     (if \<not> rect_bool (original_crop_rect_widget s) \<or> current_frame s = None then Inr s
      else case (original_crop_rect_widget s, current_frame s) of
        (Some orig, Some (frame_height, frame_width)) \<Rightarrow>
          let mouse_pos = clamp_to_pixmap s mouse_pos_widget in
          (case start_point_widget s of
             None \<Rightarrow> Inl AttributeError
           | Some spw \<Rightarrow>
               and_then (aspect_deltas s orig (fst mouse_pos - fst spw) (snd mouse_pos - snd spw))
                 (\<lambda>(delta_x, delta_y).
                    case new_widget_rect s orig delta_x delta_y of
                      None \<Rightarrow> Inr s
                    | Some r0 \<Rightarrow>
                        let new_rect_widget = min_size_widget_rect s (constrain_widget_rect s orig r0);
                            s1 = s\<lparr>crop_rect_widget := Some new_rect_widget\<rparr> in
                        and_then (widget_to_frame_coords s1 (topLeft new_rect_widget)) (\<lambda>top_left_frame.
                        and_then (widget_to_frame_coords s1 (bottomRight new_rect_widget)) (\<lambda>bottom_right_frame.
                          if point_bool top_left_frame \<and> point_bool bottom_right_frame then
                            case (top_left_frame, bottom_right_frame) of
                              (Some tlf, Some brf) \<Rightarrow> commit_adjusted s1 frame_width frame_height tlf brf
                            | _ \<Rightarrow> Inr s1
                          else Inr s1))))
      | _ \<Rightarrow> Inr s)"

subsection \<open>Mouse moves, releases and resizes\<close>

definition constrained_mouse_pos :: "app \<Rightarrow> qpoint \<Rightarrow> error + qpoint" where
  \<comment> \<open>lines 316--360 of \<^verbatim>\<open>mouseMoveEvent\<close>: the end point of a drawing gesture\<close>
  "constrained_mouse_pos s p =
     (let mouse_pos = clamp_to_pixmap s p in
      if lock_aspect_ratio s \<and> aspect_ratio s \<noteq> None \<and> point_bool (start_point_widget s) then
        case (aspect_ratio s, start_point_widget s) of
          (Some (a0, a1), Some spw) \<Rightarrow>
            let delta_x = fst mouse_pos - fst spw; delta_y = snd mouse_pos - snd spw in
            and_then (py_truediv (of_int a0) (of_int a1)) (\<lambda>target_ratio.
              and_then
                (if \<bar>delta_x\<bar> > \<bar>delta_y\<bar> then
                   let constrained_width = \<bar>delta_x\<bar> in
                   and_then (py_truediv (of_int constrained_width) target_ratio) (\<lambda>q.
                     let constrained_height = py_int q in
                     Inr (if delta_x < 0 then fst spw - constrained_width else fst spw + constrained_width,
                          if delta_y < 0 then snd spw - constrained_height else snd spw + constrained_height))
                 else
                   let constrained_height = \<bar>delta_y\<bar>;
                       constrained_width = py_int (of_int constrained_height * target_ratio)
                   in Inr (if delta_x < 0 then fst spw - constrained_width else fst spw + constrained_width,
                           if delta_y < 0 then snd spw - constrained_height else snd spw + constrained_height))
                (\<lambda>mp. Inr (clamp_to_pixmap s mp)))
        | _ \<Rightarrow> Inr mouse_pos
      else Inr mouse_pos)"

definition mouseMoveEvent :: "app \<Rightarrow> qpoint \<Rightarrow> error + app" where
  "mouseMoveEvent s mouse_pos =
     (if adjusting s \<and> current_frame s \<noteq> None \<and> rect_bool (original_crop_rect_widget s)
      then adjust_crop_rect s mouse_pos
      else if drawing s \<and> current_frame s \<noteq> None then
        and_then (constrained_mouse_pos s mouse_pos) (\<lambda>mp.
          and_then (widget_to_frame_coords s mp) (\<lambda>frame_point.
            if point_bool frame_point
            then update_crop_rect (s\<lparr>end_point := frame_point, end_point_widget := Some mp\<rparr>)
            else Inr s))
      else Inr s)"

definition mouseReleaseEvent :: "app \<Rightarrow> mouse_button \<Rightarrow> error + app" where
  "mouseReleaseEvent s button =
     (if button = LeftButton then
        if adjusting s then
          Inr (s\<lparr>adjusting := False, adjust_mode := None,
                 original_crop_rect := None, original_crop_rect_widget := None\<rparr>)
        else
          let s1 = s\<lparr>drawing := False\<rparr> in
          if point_bool (start_point s1) \<and> point_bool (end_point s1) then update_crop_rect s1
          else Inr s1
      else Inr s)"

definition resizeEvent :: "app \<Rightarrow> int \<times> int \<Rightarrow> error + app" where
  \<comment> \<open>the widget has its new size when the handler runs\<close>
  "resizeEvent s new_size =
     (let s0 = s\<lparr>widget_size := new_size\<rparr> in
      if current_frame s0 \<noteq> None then
        and_then (update_base_pixmap s0) (\<lambda>s1.
          if rect_bool (crop_rect s1) then
            case crop_rect s1 of
              Some cr \<Rightarrow>
                update_shadow_crops
                  (s1\<lparr>crop_rect_widget :=
                        Some (QRect_points (frame_to_widget_coords s1 (topLeft cr))
                                           (frame_to_widget_coords s1 (bottomRight cr)))\<rparr>)
                  (shadow_count s1)
            | None \<Rightarrow> Inr s1
          else Inr s1)
      else Inr s0)"

subsection \<open>The constraint handlers of the main window\<close>

definition free_text :: string where
  \<comment> \<open>Modelled from the spec: \<^verbatim>\<open>tr("free", locale)\<close> of \<^verbatim>\<open>translations.py\<close>, which is not
      under src/ (the "free" constraint of the spec); line 1157 of main.py names its
      English value\<close>
  "free_text = ''Free''"

definition custom_text :: string where
  \<comment> \<open>Modelled from the spec: \<^verbatim>\<open>tr("custom", locale)\<close> of \<^verbatim>\<open>translations.py\<close>, which is not
      under src/; line 1159 of main.py names its English value\<close>
  "custom_text = ''Custom''"

definition ratio_map :: "string \<Rightarrow> (int \<times> int) option" where
  "ratio_map = map_of [(''16:9'', (16, 9)), (''4:3'', (4, 3)), (''1:1'', (1, 1)),
                       (''21:9'', (21, 9)), (''9:16'', (9, 16)), (''3:4'', (3, 4))]"

definition combo_items :: "string list" where
  "combo_items = [free_text, ''16:9'', ''4:3'', ''1:1'', ''21:9'', ''9:16'', ''3:4'', custom_text]"

definition potential :: "app \<Rightarrow> nat" where
  \<comment> \<open>what the nested signals can still change: the box can be unchecked once, and the
      combo box set to the free item once\<close>
  "potential s = (if lock_aspect_checkbox s then 1 else 0) +
                 (if aspect_ratio_combo s \<noteq> free_text then 1 else 0)"

function on_aspect_ratio_changed :: "app \<Rightarrow> string \<Rightarrow> error + app"
  and on_lock_aspect_toggled :: "app \<Rightarrow> bool \<Rightarrow> error + app"
  and setChecked :: "app \<Rightarrow> bool \<Rightarrow> error + app"
  and setCurrentText :: "app \<Rightarrow> string \<Rightarrow> error + app"
where
  "on_aspect_ratio_changed s ratio_text =
     (case (if ratio_text = custom_text
            then setChecked (s\<lparr>crop_aspect_ratio := Some (custom_width_spin s, custom_height_spin s)\<rparr>) True
            else Inr s) of
        Inl e \<Rightarrow> Inl e
      | Inr s1 \<Rightarrow>
          let old_ratio = crop_aspect_ratio s1 in
          (case (if ratio_text = free_text
                 then setChecked (s1\<lparr>crop_aspect_ratio := None\<rparr>) False
                 else if ratio_text \<noteq> custom_text
                 then setChecked (s1\<lparr>crop_aspect_ratio := ratio_map ratio_text\<rparr>) True
                 else Inr s1) of
             Inl e \<Rightarrow> Inl e
           | Inr s2 \<Rightarrow>
               let s3 = (if old_ratio \<noteq> crop_aspect_ratio s2
                         then clear_crop (s2\<lparr>mw_crop_rect := None\<rparr>) else s2)
               in Inr (s3\<lparr>aspect_ratio := crop_aspect_ratio s3,
                           lock_aspect_ratio := (crop_aspect_ratio s3 \<noteq> None)\<rparr>)))"
| "on_lock_aspect_toggled s locked =
     (case (if \<not> locked then setCurrentText (s\<lparr>crop_aspect_ratio := None\<rparr>) free_text else Inr s) of
        Inl e \<Rightarrow> Inl e
      | Inr s1 \<Rightarrow>
          let s2 = s1\<lparr>lock_aspect_ratio := locked,
                      aspect_ratio := (if locked then crop_aspect_ratio s1 else None)\<rparr>
          in if rect_bool (crop_rect s2) then update_crop_rect s2 else Inr s2)"
| "setChecked s b =
     \<comment> \<open>\<^verbatim>\<open>QCheckBox.setChecked\<close>: \<^verbatim>\<open>toggled\<close> is emitted when the state changes\<close>
     (if lock_aspect_checkbox s = b then Inr s
      else on_lock_aspect_toggled (s\<lparr>lock_aspect_checkbox := b\<rparr>) b)"
| "setCurrentText s text =
     \<comment> \<open>\<^verbatim>\<open>QComboBox.setCurrentText\<close>: \<^verbatim>\<open>currentTextChanged\<close> is emitted when another item becomes current\<close>
     (if text \<in> set combo_items \<and> aspect_ratio_combo s \<noteq> text
      then on_aspect_ratio_changed (s\<lparr>aspect_ratio_combo := text\<rparr>) text
      else Inr s)"
  by pat_completeness auto
termination
proof (relation "measure (\<lambda>x. case x of
      Inl (Inl (s, t)) \<Rightarrow> (if t = free_text then 4 * potential s + 2 else 2)
    | Inl (Inr (s, b)) \<Rightarrow> (if b then 0 else 4 * potential s + 2)
    | Inr (Inl (s, b)) \<Rightarrow> (if b then 1 else 4 * potential s + 1)
    | Inr (Inr (s, t)) \<Rightarrow> (if t = free_text then 4 * potential s + 1 else 3))", goal_cases)
  case 1
  show ?case by simp
next
  case (2 s ratio_text)
  then show ?case by (simp add: free_text_def custom_text_def)
next
  case (3 s ratio_text x2)
  then show ?case by (simp add: free_text_def custom_text_def potential_def split: if_splits)
next
  case (4 s ratio_text x2)
  then show ?case by (simp add: free_text_def custom_text_def potential_def split: if_splits)
next
  case (5 s locked)
  then show ?case by (simp add: potential_def)
next
  case (6 s b)
  then show ?case by (auto simp: potential_def)
next
  case (7 s t)
  then show ?case by (auto simp: potential_def)
qed

definition on_custom_ratio_changed :: "app \<Rightarrow> app" where
  "on_custom_ratio_changed s =
     (if aspect_ratio_combo s = custom_text then
        let old_ratio = crop_aspect_ratio s;
            s1 = s\<lparr>crop_aspect_ratio := Some (custom_width_spin s, custom_height_spin s)\<rparr>;
            s2 = (if old_ratio \<noteq> crop_aspect_ratio s1
                  then clear_crop (s1\<lparr>mw_crop_rect := None\<rparr>) else s1)
        in s2\<lparr>aspect_ratio := crop_aspect_ratio s2, lock_aspect_ratio := True\<rparr>
      else s)"

definition on_shadow_count_changed :: "app \<Rightarrow> int \<Rightarrow> error + app" where
  "on_shadow_count_changed s count = set_shadow_count (s\<lparr>mw_shadow_count := count\<rparr>) count"

definition mw_clear_crop :: "app \<Rightarrow> app" where
  \<comment> \<open>\<^verbatim>\<open>MainWindow.clear_crop\<close>\<close>
  "mw_clear_crop s = clear_crop (s\<lparr>mw_crop_rect := None\<rparr>)"

subsection \<open>Events\<close>

datatype event =
    SetFrame "int \<times> int"  \<comment> \<open>\<^verbatim>\<open>set_frame\<close> with a frame of this (height, width)\<close>
  | Press mouse_button qpoint
  | Drag qpoint
  | Release mouse_button
  | Resize "int \<times> int"
  | SelectRatio string  \<comment> \<open>the user picks an item of the combo box\<close>
  | ToggleLock bool  \<comment> \<open>the user clicks the check box\<close>
  | SetShadowCount int

definition step :: "app \<Rightarrow> event \<Rightarrow> error + app" where
  "step s e =
     (case e of
        SetFrame f \<Rightarrow> set_frame s (Some f)
      | Press b p \<Rightarrow> mousePressEvent s b p
      | Drag p \<Rightarrow> mouseMoveEvent s p
      | Release b \<Rightarrow> mouseReleaseEvent s b
      | Resize sz \<Rightarrow> resizeEvent s sz
      | SelectRatio t \<Rightarrow> setCurrentText s t
      | ToggleLock b \<Rightarrow> setChecked s b
      | SetShadowCount n \<Rightarrow> on_shadow_count_changed s n)"

fun run :: "app \<Rightarrow> event list \<Rightarrow> error + app" where
  "run s [] = Inr s"
| "run s (e # es) = (case step s e of Inl err \<Rightarrow> Inl err | Inr s1 \<Rightarrow> run s1 es)"

subsection \<open>Observations\<close>

definition committed :: "error + app \<Rightarrow> error + qrect option" where
  \<comment> \<open>the committed crop rectangle of an outcome\<close>
  "committed r = (case r of Inl e \<Rightarrow> Inl e | Inr s \<Rightarrow> Inr (crop_rect s))"

definition holds_after :: "(app \<Rightarrow> bool) \<Rightarrow> error + app \<Rightarrow> bool" where
  \<comment> \<open>the handlers returned, and the state satisfies the predicate\<close>
  "holds_after P r = (case r of Inl e \<Rightarrow> False | Inr s \<Rightarrow> P s)"

definition idle :: "app \<Rightarrow> bool" where
  \<comment> \<open>no gesture in progress\<close>
  "idle s = (\<not> drawing s \<and> \<not> adjusting s)"

definition crop_within_frame :: "app \<Rightarrow> bool" where
  \<comment> \<open>the bounds of the committed rectangle, when there is one\<close>
  "crop_within_frame s =
     (case (crop_rect s, current_frame s) of
        (Some r, Some (frame_height, frame_width)) \<Rightarrow>
          0 \<le> qx1 r \<and> 0 \<le> qy1 r \<and> qx1 r + rect_width r \<le> frame_width \<and>
          qy1 r + rect_height r \<le> frame_height \<and> 1 \<le> rect_width r \<and> 1 \<le> rect_height r
      | _ \<Rightarrow> True)"

definition state_of :: "error + app \<Rightarrow> app" where
  \<comment> \<open>the state of an outcome (the initial state stands for an exception)\<close>
  "state_of r = (case r of Inl e \<Rightarrow> init | Inr s \<Rightarrow> s)"

definition generate :: "qrect \<Rightarrow> int \<times> int \<Rightarrow> int \<Rightarrow> error + qrect list" where
  \<comment> \<open>\<^verbatim>\<open>update_shadow_crops\<close> as the function of the primary rectangle, the content
      (width, height) and the count that it is\<close>
  "generate primary content n =
     (case update_shadow_crops
             (init\<lparr>current_frame := Some (snd content, fst content), crop_rect := Some primary\<rparr>) n of
        Inl e \<Rightarrow> Inl e
      | Inr s \<Rightarrow> Inr (shadow_crop_rects s))"

definition round_trip :: "app \<Rightarrow> qpoint \<Rightarrow> error + qpoint option" where
  \<comment> \<open>a frame point mapped to the widget and back\<close>
  "round_trip s p = widget_to_frame_coords s (frame_to_widget_coords s p)"

definition round_trip_after :: "event list \<Rightarrow> qpoint \<Rightarrow> error + qpoint option" where
  "round_trip_after evs p = (case run init evs of Inl e \<Rightarrow> Inl e | Inr s \<Rightarrow> round_trip s p)"

definition spec_aspect_tolerance :: "qrect \<Rightarrow> bool" where
  \<comment> \<open>the tolerance as the specification words it:
      \<^verbatim>\<open>abs(width/height - 16/9) < 1/max(width, height)\<close>\<close>
  "spec_aspect_tolerance r =
     (\<bar>of_int (rect_width r) / of_int (rect_height r) - (16 / 9 :: real)\<bar>
        < 1 / of_int (max (rect_width r) (rect_height r)))"

section \<open>Properties\<close>

subsection \<open>A press without a frame\<close>

text \<open>
  C10. When no frame is loaded (\<^verbatim>\<open>current_frame is None\<close>), a press with any button at
  any point returns at once: every field of the state keeps its value, so no gesture
  begins and the crop rectangle, the anchor points and the shadow crops are unchanged.
\<close>

theorem press_without_frame_unchanged:
  "current_frame s = None \<Longrightarrow> mousePressEvent s button mouse_pos = Inr s"
  by (simp add: mousePressEvent_def)

theorem press_without_frame_unchanged_witness:
  "current_frame init = None \<and> mousePressEvent init LeftButton (5, 7) = Inr init"
proof -
  have h: "current_frame init = None" by (simp add: init_def)
  show ?thesis using h press_without_frame_unchanged [OF h, of LeftButton "(5, 7)"] by simp
qed

subsection \<open>Handle priority\<close>

text \<open>
  C9. For every display rectangle (a valid \<^verbatim>\<open>QRect\<close>: an empty one counts as no
  rectangle in \<^verbatim>\<open>if not self.crop_rect_widget\<close>) and every point within the handle
  tolerance of both its left edge and its top edge, \<^verbatim>\<open>get_crop_handle_at\<close> returns the
  top-left corner handle, hence neither the top nor the left edge handle.
\<close>

theorem corner_before_edges:
  assumes "crop_rect_widget s = Some rect" and "isValid rect"
    and "\<bar>fst p - qx1 rect\<bar> \<le> handle_size s" and "\<bar>snd p - qy1 rect\<bar> \<le> handle_size s"
  shows "get_crop_handle_at s p = Some resize_tl"
  using assms by (simp add: get_crop_handle_at_def rect_bool_def)

theorem corner_before_edges_witness:
  "get_crop_handle_at (init\<lparr>crop_rect_widget := Some (QRect 100 100 50 40)\<rparr>) (105, 95) = Some resize_tl"
proof -
  let ?s = "init\<lparr>crop_rect_widget := Some (QRect 100 100 50 40)\<rparr>"
  have a: "crop_rect_widget ?s = Some (QRect 100 100 50 40)" by simp
  have b: "isValid (QRect 100 100 50 40)" by (simp add: QRect_def)
  have c: "\<bar>fst (105::int, 95::int) - qx1 (QRect 100 100 50 40)\<bar> \<le> handle_size ?s"
    by (simp add: QRect_def init_def)
  have d: "\<bar>snd (105::int, 95::int) - qy1 (QRect 100 100 50 40)\<bar> \<le> handle_size ?s"
    by (simp add: QRect_def init_def)
  show ?thesis using corner_before_edges [OF a b c d] .
qed

subsection \<open>The bounds of the committed rectangle\<close>

text \<open>
  C1 asks that the committed rectangle always lies within the frame. The code aims at
  it (\<^verbatim>\<open>ensure crop is completely within frame\<close>, line 614) and misses it: with a locked
  ratio, a move applies the ratio to a rectangle that the frame border had cut while it
  was drawn, and the re-clamp of lines 638--644 keeps the grown size. On a frame 90
  wide and 180 high with the ratio 1:1, a rectangle drawn to the right border and then
  moved is committed as 170 by 170 at \<open>(0, 9)\<close>.
\<close>

theorem move_with_locked_ratio_leaves_frame:
  "committed (run init [SetFrame (180, 90), SelectRatio ''1:1'',
       Press LeftButton (240, 10), Drag (600, 350), Release LeftButton,
       Press LeftButton (300, 100), Drag (295, 110)]) = Inr (Some (QRect 0 9 170 170))
   \<and> holds_after (\<lambda>s. current_frame s = Some (180, 90) \<and> \<not> crop_within_frame s)
       (run init [SetFrame (180, 90), SelectRatio ''1:1'',
          Press LeftButton (240, 10), Drag (600, 350), Release LeftButton,
          Press LeftButton (300, 100), Drag (295, 110)])"
  by code_simp

subsection \<open>A release without a gesture\<close>

text \<open>
  C8 asks that a release in the idle state changes nothing. \<^verbatim>\<open>mouseReleaseEvent\<close>
  tests \<^verbatim>\<open>adjusting\<close> and treats every other state as the end of a drawing gesture
  (\<^verbatim>\<open>mouseMoveEvent\<close> tests \<^verbatim>\<open>drawing\<close>): in the idle state it recomputes the
  rectangle from the end points of the last drawing gesture. After a rectangle is drawn
  and then moved, the state is idle with the moved rectangle committed, and one more
  release commits the drawn rectangle again.
\<close>

theorem release_when_idle_reverts_crop:
  "holds_after idle (run init [SetFrame (180, 320),
       Press LeftButton (20, 20), Drag (220, 120), Release LeftButton,
       Press LeftButton (100, 60), Drag (140, 80), Release LeftButton])
   \<and> committed (run init [SetFrame (180, 320),
       Press LeftButton (20, 20), Drag (220, 120), Release LeftButton,
       Press LeftButton (100, 60), Drag (140, 80), Release LeftButton])
     = Inr (Some (QRect 30 20 100 50))
   \<and> committed (run init [SetFrame (180, 320),
       Press LeftButton (20, 20), Drag (220, 120), Release LeftButton,
       Press LeftButton (100, 60), Drag (140, 80), Release LeftButton,
       Release LeftButton])
     = Inr (Some (QRect 10 10 100 50))"
  by code_simp

subsection \<open>Shadow crops\<close>

text \<open>
  C3, as stated: for the primary rectangle \<open>(0, 0, 100, 50)\<close>, a content of 250 by 200
  and the count 4 there are exactly two shadow crops, at \<open>x = 100\<close> and \<open>x = 200\<close>.
  It fails: the crop at \<open>x = 200\<close> would end at 300, beyond the width 250.
\<close>

theorem replica_example_counterexample:
  "generate (QRect 0 0 100 50) (250, 200) 4 \<noteq> Inr [QRect 100 0 100 50, QRect 200 0 100 50]"
  by code_simp

text \<open>
  C3, amended: for the primary rectangle \<open>(0, 0, 100, 50)\<close>, a content of 250 by 200 and
  the count 4 there is exactly one shadow crop, at \<open>x = 100\<close>; with the count 1 there is
  none.
\<close>

theorem replica_example:
  "generate (QRect 0 0 100 50) (250, 200) 4 = Inr [QRect 100 0 100 50]
   \<and> generate (QRect 0 0 100 50) (250, 200) 1 = Inr []"
  by code_simp

text \<open>The loop appends, in the order of the indices, the shifted copies that fit.\<close>

lemma shadow_loop_fst:
  "fst (shadow_loop s cr fw js acc) =
     fst acc @ map (\<lambda>i. QRect (qx1 cr + rect_width cr * i) (qy1 cr) (rect_width cr) (rect_height cr))
                   (filter (\<lambda>i. qx1 cr + rect_width cr * i + rect_width cr \<le> fw) js)"
  by (induction js arbitrary: acc) (simp_all add: Let_def)

text \<open>
  C5. For every primary rectangle (a valid \<^verbatim>\<open>QRect\<close>), frame and count \<open>n\<close>, the
  shadow crops are, in the order of \<open>i = 1, \<dots>, n - 1\<close>, the copies of the primary
  shifted right by \<open>i\<close> times its width (same \<open>y\<close>, width and height), for exactly the
  \<open>i\<close> whose copy ends within the frame width; and for every \<open>n \<le> 1\<close> there are none,
  whatever the state.
\<close>

theorem shadow_crops_tile_right:
  "(n \<le> 1 \<longrightarrow> holds_after (\<lambda>s'. shadow_crop_rects s' = []) (update_shadow_crops s n)) \<and>
   (crop_rect s = Some r \<and> isValid r \<and> current_frame s = Some (fh, fw) \<longrightarrow>
      holds_after (\<lambda>s'. shadow_crop_rects s' =
          map (\<lambda>i. QRect (qx1 r + rect_width r * i) (qy1 r) (rect_width r) (rect_height r))
              (filter (\<lambda>i. qx1 r + rect_width r * i + rect_width r \<le> fw) [1..n - 1]))
        (update_shadow_crops s n))"
  by (simp add: update_shadow_crops_def holds_after_def rect_bool_def shadow_loop_fst)

theorem shadow_crops_tile_right_witness:
  "holds_after (\<lambda>s'. shadow_crop_rects s' = [QRect 110 20 100 50, QRect 210 20 100 50])
     (update_shadow_crops (init\<lparr>current_frame := Some (200, 400), crop_rect := Some (QRect 10 20 100 50)\<rparr>) 4)
   \<and> holds_after (\<lambda>s'. shadow_crop_rects s' = [])
     (update_shadow_crops (init\<lparr>current_frame := Some (200, 400), crop_rect := Some (QRect 10 20 100 50)\<rparr>) 1)"
proof -
  let ?s = "init\<lparr>current_frame := Some (200, 400), crop_rect := Some (QRect 10 20 100 50)\<rparr>"
  have a: "crop_rect ?s = Some (QRect 10 20 100 50) \<and> isValid (QRect 10 20 100 50)
           \<and> current_frame ?s = Some (200, 400)"
    by (simp add: QRect_def)
  have b: "[1..(3::int)] = [1, 2, 3]" by code_simp
  have c: "(1::int) \<le> 1" by simp
  from shadow_crops_tile_right [of 4 ?s "QRect 10 20 100 50" 200 400] a
  have "holds_after (\<lambda>s'. shadow_crop_rects s' =
          map (\<lambda>i. QRect (qx1 (QRect 10 20 100 50) + rect_width (QRect 10 20 100 50) * i) (qy1 (QRect 10 20 100 50)) (rect_width (QRect 10 20 100 50)) (rect_height (QRect 10 20 100 50)))
              (filter (\<lambda>i. qx1 (QRect 10 20 100 50) + rect_width (QRect 10 20 100 50) * i + rect_width (QRect 10 20 100 50) \<le> 400) [1..4 - 1]))
        (update_shadow_crops ?s 4)" by blast
  then have d: "holds_after (\<lambda>s'. shadow_crop_rects s' = [QRect 110 20 100 50, QRect 210 20 100 50])
     (update_shadow_crops ?s 4)"
    by (simp add: b QRect_def)
  from shadow_crops_tile_right [of 1 ?s] c
  have e: "holds_after (\<lambda>s'. shadow_crop_rects s' = []) (update_shadow_crops ?s 1)" by blast
  show ?thesis using d e by simp
qed

subsection \<open>The round trip of a frame point\<close>

text \<open>
  One axis: the widget coordinate is the floor of \<open>p * sc + off\<close>, and the way back
  divides by \<open>sc\<close> and truncates, so the result is at most \<open>p\<close> and loses less than
  \<open>1 / sc + 1\<close>.
\<close>

lemma round_trip_axis:
  fixes sc off :: real and p bound :: int
  assumes sc: "0 < sc" and off: "0 \<le> off" and p: "0 \<le> p" "p \<le> bound"
  defines "r \<equiv> max 0 (min (py_int ((of_int (py_int (of_int p * sc + off)) - off) / sc)) bound)"
  shows "r \<le> p \<and> of_int (p - r) < 1 / sc + 1 \<and> (1 \<le> sc \<longrightarrow> p - r \<le> 1)"
proof -
  define v where "v = of_int p * sc + off"
  define X where "X = py_int v"
  define q where "q = (of_int X - off) / sc"
  have v0: "0 \<le> v" using sc off p by (simp add: v_def)
  have X: "X = \<lfloor>v\<rfloor>" using v0 by (simp add: X_def py_int_def)
  have Xle: "of_int X \<le> v" and Xgt: "v - 1 < of_int X" unfolding X by linarith+
  have qle: "q \<le> of_int p"
  proof -
    have "of_int X - off \<le> of_int p * sc" using Xle by (simp add: v_def)
    then show ?thesis using sc by (simp add: q_def pos_divide_le_eq)
  qed
  have qgt: "of_int p - 1 / sc < q"
  proof -
    have "of_int p * sc - 1 < of_int X - off" using Xgt by (simp add: v_def)
    then have "(of_int p * sc - 1) / sc < q" using sc by (simp add: q_def divide_strict_right_mono)
    then show ?thesis using sc by (simp add: diff_divide_distrib)
  qed
  have r: "r = max 0 (min (py_int q) bound)" by (simp add: r_def q_def X_def v_def)
  have main: "r \<le> p \<and> of_int (p - r) < 1 / sc + 1"
  proof (cases "0 \<le> q")
    case True
    then have t: "py_int q = \<lfloor>q\<rfloor>" by (simp add: py_int_def)
    have t0: "0 \<le> \<lfloor>q\<rfloor>" using True by simp
    have tp: "\<lfloor>q\<rfloor> \<le> p" using qle by (simp add: floor_le_iff)
    have rr: "r = \<lfloor>q\<rfloor>" unfolding r t using t0 tp p by linarith
    have "q - 1 < of_int \<lfloor>q\<rfloor>" by linarith
    with qgt have "of_int p - of_int \<lfloor>q\<rfloor> < 1 / sc + 1" by linarith
    then show ?thesis using rr tp by simp
  next
    case False
    then have t: "py_int q = \<lceil>q\<rceil>" by (simp add: py_int_def)
    have t0: "\<lceil>q\<rceil> \<le> 0" using False by (simp add: ceiling_le_iff)
    have rr: "r = 0" unfolding r t using t0 p by linarith
    show ?thesis using rr p qgt False by simp
  qed
  moreover have "1 \<le> sc \<longrightarrow> p - r \<le> 1"
  proof
    assume "1 \<le> sc"
    then have "1 / sc \<le> 1" using sc by simp
    with main have "of_int (p - r) < (2::real)" by linarith
    then show "p - r \<le> 1" by linarith
  qed
  ultimately show ?thesis by simp
qed

lemma scaled_keep_aspect_fits:
  assumes "0 < wd" "0 < ht" "0 < sw" "0 < sh"
  shows "0 < fst (scaled_keep_aspect (wd, ht) (sw, sh)) \<and> fst (scaled_keep_aspect (wd, ht) (sw, sh)) \<le> sw
       \<and> 0 < snd (scaled_keep_aspect (wd, ht) (sw, sh)) \<and> snd (scaled_keep_aspect (wd, ht) (sw, sh)) \<le> sh"
proof (cases "(sh * wd) div ht \<le> sw")
  case True
  then show ?thesis using assms by (simp add: scaled_keep_aspect_def Let_def)
next
  case False
  then have a: "sw + 1 \<le> (sh * wd) div ht" by simp
  have b: "ht * ((sh * wd) div ht) = sh * wd - (sh * wd) mod ht"
    by (simp add: minus_mod_eq_mult_div)
  have c: "0 \<le> (sh * wd) mod ht" using assms by simp
  have "ht * (sw + 1) \<le> ht * ((sh * wd) div ht)"
    using a assms by (simp add: mult_left_mono)
  then have "(sw + 1) * ht \<le> sh * wd" using b c by (simp add: mult.commute)
  then have "sw * ht \<le> sh * wd" using assms by (simp add: algebra_simps)
  then have "(sw * ht) div wd \<le> (sh * wd) div wd" using assms zdiv_mono1 by blast
  then have "(sw * ht) div wd \<le> sh" using assms by simp
  then show ?thesis using False assms by (simp add: scaled_keep_aspect_def Let_def)
qed


lemma set_frame_transform:
  assumes "set_frame s0 (Some (fh, fw)) = Inr s" and "0 < fw" "0 < fh"
    and "0 < fst (widget_size s0)" "0 < snd (widget_size s0)"
  shows "current_frame s = Some (fh, fw) \<and> 0 < frame_to_widget_scale_x s \<and> 0 < frame_to_widget_scale_y s
       \<and> 0 \<le> widget_offset_x s \<and> 0 \<le> widget_offset_y s"
proof -
  obtain W H where wh: "widget_size s0 = (W, H)" by (cases "widget_size s0")
  have f: "0 < fst (scaled_keep_aspect (fw, fh) (W, H)) \<and> fst (scaled_keep_aspect (fw, fh) (W, H)) \<le> W
       \<and> 0 < snd (scaled_keep_aspect (fw, fh) (W, H)) \<and> snd (scaled_keep_aspect (fw, fh) (W, H)) \<le> H"
    using scaled_keep_aspect_fits [of fw fh W H] assms wh by simp
  have "s = s0\<lparr>current_frame := Some (fh, fw), base_pixmap := Some (scaled_keep_aspect (fw, fh) (W, H)),
                frame_to_widget_scale_x := of_int (fst (scaled_keep_aspect (fw, fh) (W, H))) / of_int fw,
                frame_to_widget_scale_y := of_int (snd (scaled_keep_aspect (fw, fh) (W, H))) / of_int fh,
                widget_offset_x := of_int (W - fst (scaled_keep_aspect (fw, fh) (W, H))) / 2,
                widget_offset_y := of_int (H - snd (scaled_keep_aspect (fw, fh) (W, H))) / 2\<rparr>"
    using assms wh by (simp add: set_frame_def update_base_pixmap_def Let_def)
  then show ?thesis using f assms by simp
qed

text \<open>
  C6, as stated: for every frame point strictly inside the frame and every transform,
  the point mapped to the widget and back differs from it by at most 1 on each axis.
  It fails when the frame is shown smaller than it is: a frame of 1920 by 1080 in the
  widget of 640 by 360 has the scale \<open>1/3\<close>, the point \<open>(5, 5)\<close> goes to the widget
  point \<open>(1, 1)\<close> and comes back as \<open>(3, 3)\<close>.
\<close>

theorem round_trip_counterexample:
  "round_trip_after [SetFrame (1080, 1920)] (5, 5) = Inr (Some (3, 3))"
  by code_simp

text \<open>
  C6, amended: for every frame point \<open>p\<close> strictly inside the frame and the transform
  that \<^verbatim>\<open>set_frame\<close> computes for a frame and a widget of positive dimensions, the point
  \<open>r\<close> that comes back satisfies, on each axis, \<open>r \<le> p\<close> and \<open>p - r < 1 / scale + 1\<close>;
  so it differs from \<open>p\<close> by at most 1 wherever the scale of the axis is at least 1.
\<close>

theorem round_trip_within_scale:
  assumes "set_frame s0 (Some (fh, fw)) = Inr s"
    and "0 < fst (widget_size s0)" "0 < snd (widget_size s0)"
    and "0 \<le> px" "px < fw" "0 \<le> py" "py < fh"
  shows "\<exists>rx ry. round_trip s (px, py) = Inr (Some (rx, ry))
           \<and> rx \<le> px \<and> of_int (px - rx) < 1 / frame_to_widget_scale_x s + 1
           \<and> ry \<le> py \<and> of_int (py - ry) < 1 / frame_to_widget_scale_y s + 1
           \<and> (1 \<le> frame_to_widget_scale_x s \<longrightarrow> px - rx \<le> 1)
           \<and> (1 \<le> frame_to_widget_scale_y s \<longrightarrow> py - ry \<le> 1)"
proof -
  have t: "current_frame s = Some (fh, fw) \<and> 0 < frame_to_widget_scale_x s \<and> 0 < frame_to_widget_scale_y s
       \<and> 0 \<le> widget_offset_x s \<and> 0 \<le> widget_offset_y s"
    using set_frame_transform [of s0 fh fw s] assms by simp
  have x: "max 0 (min (py_int ((of_int (py_int (of_int px * frame_to_widget_scale_x s + widget_offset_x s))
              - widget_offset_x s) / frame_to_widget_scale_x s)) fw) \<le> px
        \<and> of_int (px - max 0 (min (py_int ((of_int (py_int (of_int px * frame_to_widget_scale_x s + widget_offset_x s))
              - widget_offset_x s) / frame_to_widget_scale_x s)) fw)) < 1 / frame_to_widget_scale_x s + 1
        \<and> (1 \<le> frame_to_widget_scale_x s \<longrightarrow> px - max 0 (min (py_int ((of_int (py_int (of_int px * frame_to_widget_scale_x s + widget_offset_x s))
              - widget_offset_x s) / frame_to_widget_scale_x s)) fw) \<le> 1)"
    using round_trip_axis [of "frame_to_widget_scale_x s" "widget_offset_x s" px fw] t assms by simp
  have y: "max 0 (min (py_int ((of_int (py_int (of_int py * frame_to_widget_scale_y s + widget_offset_y s))
              - widget_offset_y s) / frame_to_widget_scale_y s)) fh) \<le> py
        \<and> of_int (py - max 0 (min (py_int ((of_int (py_int (of_int py * frame_to_widget_scale_y s + widget_offset_y s))
              - widget_offset_y s) / frame_to_widget_scale_y s)) fh)) < 1 / frame_to_widget_scale_y s + 1
        \<and> (1 \<le> frame_to_widget_scale_y s \<longrightarrow> py - max 0 (min (py_int ((of_int (py_int (of_int py * frame_to_widget_scale_y s + widget_offset_y s))
              - widget_offset_y s) / frame_to_widget_scale_y s)) fh) \<le> 1)"
    using round_trip_axis [of "frame_to_widget_scale_y s" "widget_offset_y s" py fh] t assms by simp
  have "round_trip s (px, py) =
     Inr (Some (max 0 (min (py_int ((of_int (py_int (of_int px * frame_to_widget_scale_x s + widget_offset_x s))
              - widget_offset_x s) / frame_to_widget_scale_x s)) fw),
          max 0 (min (py_int ((of_int (py_int (of_int py * frame_to_widget_scale_y s + widget_offset_y s))
              - widget_offset_y s) / frame_to_widget_scale_y s)) fh)))"
    using t by (simp add: round_trip_def py_truediv_def Let_def)
  then show ?thesis using x y by blast
qed

theorem round_trip_within_scale_witness:
  "\<exists>rx ry. round_trip (init\<lparr>current_frame := Some (180, 320), base_pixmap := Some (640, 360),
                  frame_to_widget_scale_x := 2, frame_to_widget_scale_y := 2\<rparr>) (7, 9)
              = Inr (Some (rx, ry))
           \<and> rx \<le> 7 \<and> 7 - rx \<le> 1 \<and> ry \<le> 9 \<and> 9 - ry \<le> 1"
proof -
  have a: "set_frame init (Some (180, 320)) =
     Inr (init\<lparr>current_frame := Some (180, 320), base_pixmap := Some (640, 360),
               frame_to_widget_scale_x := 2, frame_to_widget_scale_y := 2\<rparr>)"
    by (simp add: set_frame_def update_base_pixmap_def scaled_keep_aspect_def init_def Let_def)
  have b: "0 < fst (widget_size init)" "0 < snd (widget_size init)" by (simp_all add: init_def)
  have c: "(0::int) \<le> 7" "(7::int) < 320" "(0::int) \<le> 9" "(9::int) < 180" by simp_all
  show ?thesis using round_trip_within_scale [OF a b c] by fastforce
qed

end
